theory Spec2Isabelle
  imports
    Complex_Main
    "HOL-Library.Multiset"
    "HOL-Library.Product_Lexorder"
    "HOL-Library.List_Lexorder"
    "HOL-Library.Char_ord"
begin

section \<open>Conventions of the embedding\<close>

text \<open>
  The development embeds two source files of the repository:
  \<^verbatim>\<open>core/action_selection.py\<close> (greedy action selection) and
  \<^verbatim>\<open>lfd/transfer/registration_transfer.py\<close> (the two-step, unified and decomposed
  registration-and-trajectory transferers).

  \<^item> Python and numpy floating-point numbers are idealised as \<^typ>\<open>real\<close>: rounding,
    infinities and NaN are outside the model.
  \<^item> Every exception the embedded code can raise by itself is a value of \<open>py_error\<close>;
    a function that can raise returns \<open>py_error + 'a\<close> with \<open>Inl\<close> for the exception.
  \<^item> Collaborators whose code is not part of the two files (the registration factory, the
    spline solver, the trajectory optimizer, the kinematics helpers) are parameters: fields of
    records of functions. They are taken to return a value.
  \<^item> The branches guarded by \<^verbatim>\<open>plotting\<close> only draw; the model is that of
    \<^verbatim>\<open>plotting=False\<close>, the default. \<^verbatim>\<open>print\<close> statements are dropped.
\<close>

datatype py_error =
    NotImplementedError
  | ValueError
  | TypeError
  | KeyError
  | IndexError
  | ZeroDivisionError
  | AssertionError

definition bind_r :: "py_error + 'a \<Rightarrow> ('a \<Rightarrow> py_error + 'b) \<Rightarrow> py_error + 'b" where
  "bind_r m k = (case m of Inl e \<Rightarrow> Inl e | Inr x \<Rightarrow> k x)"

section \<open>Greedy action selection\<close>

text \<open>
  \<^verbatim>\<open>
  class GreedyActionSelection(ActionSelection):
      def plan_agenda(self, scene_state):
          action2q_value = self.registration_factory.batch_cost(scene_state)
          q_values, agenda = zip(*sorted([(q_value, action)
                                 for (action, q_value) in action2q_value.items()]))
          return agenda, q_values
  \<close>
  The dictionary returned by the oracle is an association list with distinct keys, in the
  order \<^verbatim>\<open>items()\<close> enumerates it. \<^verbatim>\<open>sorted\<close> orders the (cost, action) tuples
  lexicographically, which is the order of \<^typ>\<open>'q \<times> 'a\<close> here. \<^verbatim>\<open>zip(*ts)\<close> of a
  non-empty list of pairs is the pair of its columns; of the empty list it is the empty
  list, and unpacking that into two names raises \<^verbatim>\<open>ValueError\<close>.
\<close>

definition zip_star :: "('q \<times> 'a) list \<Rightarrow> py_error + ('q list \<times> 'a list)" where
  "zip_star ts = (if ts = [] then Inl ValueError else Inr (map fst ts, map snd ts))"

definition plan_agenda ::
  "('s \<Rightarrow> ('a::linorder \<times> 'q::linorder) list) \<Rightarrow> 's \<Rightarrow> py_error + ('a list \<times> 'q list)" where
  "plan_agenda batch_cost scene_state =
     (let action2q_value = batch_cost scene_state in
      bind_r (zip_star (sort (map (\<lambda>(action, q_value). (q_value, action)) action2q_value)))
        (\<lambda>(q_values, agenda). Inr (agenda, q_values)))"

section \<open>Arrays\<close>

text \<open>
  A contact point is a row of an array of shape \<open>(n, 3)\<close>; such an array is a list of
  points. An array of shape \<open>(n, 4, 3)\<close> (four corner points of a finger at each
  timestep) is a list of lists of points. A two-dimensional array of joint values keeps its
  number of columns, which numpy knows also when there is no row.
\<close>

type_synonym point = "real \<times> real \<times> real"

definition pneg :: "point \<Rightarrow> point" where
  "pneg p = (case p of (x, y, z) \<Rightarrow> (- x, - y, - z))"

definition pabs :: "point \<Rightarrow> point" where
  "pabs p = (case p of (x, y, z) \<Rightarrow> (\<bar>x\<bar>, \<bar>y\<bar>, \<bar>z\<bar>))"

definition padd :: "point \<Rightarrow> point \<Rightarrow> point" where
  "padd p q = (case p of (x, y, z) \<Rightarrow> case q of (x', y', z') \<Rightarrow> (x + x', y + y', z + z'))"

definition psub :: "point \<Rightarrow> point \<Rightarrow> point" where
  "psub p q = (case p of (x, y, z) \<Rightarrow> case q of (x', y', z') \<Rightarrow> (x - x', y - y', z - z'))"

definition pscale :: "real \<Rightarrow> point \<Rightarrow> point" where
  "pscale c p = (case p of (x, y, z) \<Rightarrow> (c * x, c * y, c * z))"

text \<open>
  \<^verbatim>\<open>a - b\<close> on arrays of shapes \<open>(m, 3)\<close> and \<open>(n, 3)\<close>: numpy broadcasts an array
  with one row and raises \<^verbatim>\<open>ValueError\<close> when the row counts differ otherwise.
\<close>

definition np_sub :: "point list \<Rightarrow> point list \<Rightarrow> py_error + point list" where
  "np_sub a b =
     (if length a = length b then Inr (map2 psub a b)
      else if length a = 1 then Inr (map (psub (hd a)) b)
      else if length b = 1 then Inr (map (\<lambda>p. psub p (hd b)) a)
      else Inl ValueError)"

text \<open>
  \<^verbatim>\<open>sum(sum(abs(d)))\<close> with Python's builtin \<^verbatim>\<open>sum\<close>: the inner sum adds the rows
  to the integer 0, giving the three column sums; the outer sum adds these. On an array
  without rows the inner sum is the integer 0, which the outer \<^verbatim>\<open>sum\<close> cannot iterate.
\<close>

definition py_sum_sum_abs :: "point list \<Rightarrow> py_error + real" where
  "py_sum_sum_abs d =
     (if d = [] then Inl TypeError
      else case foldl padd (0, 0, 0) (map pabs d) of (sx, sy, sz) \<Rightarrow> Inr (foldl (+) 0 [sx, sy, sz]))"

record ndarray =
  ncols :: nat
  rows :: "real list list"

definition np_zeros :: "nat \<Rightarrow> nat \<Rightarrow> ndarray" where
  "np_zeros n k = \<lparr>ncols = k, rows = replicate n (replicate k 0)\<rparr>"

definition np_scale :: "real \<Rightarrow> ndarray \<Rightarrow> ndarray" where
  "np_scale c a = a\<lparr>rows := map (map ((*) c)) (rows a)\<rparr>"

text \<open>
  \<^verbatim>\<open>np.concatenate(as, axis=1)\<close> and \<^verbatim>\<open>np.c_[...]\<close>: \<^verbatim>\<open>ValueError\<close> for no array
  and for arrays whose row counts differ.
\<close>

definition np_concatenate1 :: "ndarray list \<Rightarrow> py_error + ndarray" where
  "np_concatenate1 as =
     (case as of
        [] \<Rightarrow> Inl ValueError
      | a # rest \<Rightarrow>
          if list_all (\<lambda>b. length (rows b) = length (rows a)) rest
          then Inr \<lparr>ncols = sum_list (map ncols as),
                    rows = foldl (\<lambda>acc b. map2 (@) acc (rows b)) (rows a) rest\<rparr>
          else Inl ValueError)"

definition set_column :: "nat \<Rightarrow> real \<Rightarrow> ndarray \<Rightarrow> py_error + ndarray" where
  "set_column k v a =
     (if k < ncols a then Inr (a\<lparr>rows := map (\<lambda>r. r[k := v]) (rows a)\<rparr>) else Inl IndexError)"

definition py_div :: "real \<Rightarrow> real \<Rightarrow> py_error + real" where
  "py_div a b = (if b = 0 then Inl ZeroDivisionError else Inr (a / b))"

definition dict_get :: "('k \<rightharpoonup> 'v) \<Rightarrow> 'k \<Rightarrow> py_error + 'v" where
  "dict_get d k = (case d k of None \<Rightarrow> Inl KeyError | Some v \<Rightarrow> Inr v)"

fun sequence_r :: "(py_error + 'a) list \<Rightarrow> py_error + 'a list" where
  "sequence_r [] = Inr []"
| "sequence_r (m # ms) =
     (case m of
        Inl e \<Rightarrow> Inl e
      | Inr x \<Rightarrow> (case sequence_r ms of Inl e \<Rightarrow> Inl e | Inr xs \<Rightarrow> Inr (x # xs)))"

fun list_index :: "'a list \<Rightarrow> 'a \<Rightarrow> py_error + nat" where
  "list_index [] v = Inl ValueError"
| "list_index (x # xs) v =
     (if x = v then Inr 0 else case list_index xs v of Inl e \<Rightarrow> Inl e | Inr k \<Rightarrow> Inr (Suc k))"

section \<open>Data model of the transferers\<close>

text \<open>
  The keys \<^verbatim>\<open>'l'\<close> and \<^verbatim>\<open>'r'\<close> of the per-arm and per-finger dictionaries.
\<close>

datatype side = SideL | SideR

definition side_char :: "side \<Rightarrow> string" where
  "side_char lr = (case lr of SideL \<Rightarrow> ''l'' | SideR \<Rightarrow> ''r'')"

type_synonym hmat = "real list list"

record AugmentedTrajectory =
  lr2arm_traj :: "side \<rightharpoonup> ndarray"
  lr2finger_traj :: "side \<rightharpoonup> ndarray"
  lr2ee_traj :: "side \<rightharpoonup> hmat list"
  lr2open_finger_traj :: "side \<rightharpoonup> bool list"
  lr2close_finger_traj :: "side \<rightharpoonup> bool list"

type_synonym SceneState = "real list list"

record Demonstration =
  scene_state :: SceneState
  aug_traj :: AugmentedTrajectory

text \<open>
  The regularization coefficients of the warp are a scalar or a vector
  (\<^verbatim>\<open>np.isscalar\<close>); its weights are \<^verbatim>\<open>None\<close>, a vector or a matrix.
\<close>

datatype coef = Scalar real | PerDim "real list"

datatype weights = WtNone | Wt1 "real list" | Wt2 "real list list"

record warp =
  x_na :: "point list"
  y_ng :: "point list"
  bend_coef :: coef
  rot_coef :: coef
  wt_n :: weights
  theta :: "real list list"
  factorization :: "real list list \<times> real list list"

record Registration =
  reg_f :: warp
  test_scene_state :: SceneState

record Robot =
  GetJointIndex :: "string \<Rightarrow> int"
  GetDOFLimits :: "int list \<Rightarrow> real list \<times> real list"

record Simulation =
  robot :: Robot

text \<open>
  The two \<^verbatim>\<open>isinstance\<close> tests of the constructors read the class of the collaborator;
  the class is a flag of the record.
\<close>

record RegistrationFactory =
  is_TpsRpmRegistrationFactory :: bool
  register :: "Demonstration \<Rightarrow> SceneState \<Rightarrow> Registration"

record TrajectoryTransferer =
  is_FingerTrajectoryTransferer :: bool
  tt_sim :: Simulation
  tt_transfer :: "Registration \<Rightarrow> Demonstration \<Rightarrow> AugmentedTrajectory"

record RegistrationAndTrajectoryTransferer =
  registration_factory :: RegistrationFactory
  trajectory_transferer :: TrajectoryTransferer

text \<open>
  \<^verbatim>\<open>UnifiedRegistrationAndTrajectoryTransferer\<close> and
  \<^verbatim>\<open>DecompRegistrationAndTrajectoryTransferer\<close> extend the base class with the same
  attributes.
\<close>

record CoupledTransferer = RegistrationAndTrajectoryTransferer +
  sim :: Simulation
  alpha :: real
  beta_pos :: real
  gamma :: real
  use_collision_cost :: bool
  init_trajectory_transferer :: "TrajectoryTransferer option"

subsection \<open>The optimization request\<close>

datatype cost =
    JointVel (coeffs: "real list")
  | Collision (continuous: bool) (collision_coeffs: "real list") (dist_pen: "real list")
  | RelPtsLambdas (lambdas: "point list") (rel_xyzs: "point list") (link: string)
      (timestep: real) (pos_coeffs: "real list")

record request =
  basic_info_n_steps :: nat
  basic_info_manip :: string
  basic_info_start_fixed :: bool
  costs :: "cost list"
  constraints :: "cost list"
  init_info :: "real list list option"

subsection \<open>Collaborators\<close>

text \<open>
  The third argument of \<^verbatim>\<open>sim_util.get_finger_pts_traj\<close> is a pair of an end-effector
  trajectory and a finger trajectory, or a full trajectory with its joint indices.
\<close>

datatype traj_arg = EeFinger "hmat list" ndarray | FullTraj ndarray "int list"

text \<open>
  The functions and constants of \<^verbatim>\<open>settings\<close>, \<^verbatim>\<open>sim_util\<close>, \<^verbatim>\<open>tps\<close>,
  \<^verbatim>\<open>trajoptpy\<close> and \<^verbatim>\<open>demonstration\<close>, and the methods of the warp and of the
  augmented trajectory that the transferers call. \<open>OptimizeProblem\<close> stands for
  \<^verbatim>\<open>ConstructProblem\<close>, \<^verbatim>\<open>OptimizeProblem\<close> and \<^verbatim>\<open>GetTraj\<close> in sequence.
\<close>

record externals =
  JOINT_LENGTH_PER_STEP :: real
  FINGER_CLOSE_RATE :: real
  unif_resample :: "ndarray \<Rightarrow> real \<Rightarrow> ndarray \<times> real list"
  get_resampled_traj :: "AugmentedTrajectory \<Rightarrow> real list \<Rightarrow> AugmentedTrajectory"
  arm_moved :: "ndarray \<Rightarrow> bool"
  get_finger_pts_traj :: "Robot \<Rightarrow> side \<Rightarrow> traj_arg \<Rightarrow> (side \<rightharpoonup> point list list)"
  get_finger_rel_pts :: "side \<Rightarrow> point list"
  dof_inds_from_name :: "Robot \<Rightarrow> string \<Rightarrow> int list"
  tps_fit_decomp ::
    "point list \<Rightarrow> point list \<Rightarrow> real list \<Rightarrow> real list \<Rightarrow> weights \<Rightarrow> point list \<Rightarrow> point list
      \<Rightarrow> real list list \<times> (real list list \<times> real list list)"
  update ::
    "warp \<Rightarrow> point list \<Rightarrow> point list \<Rightarrow> real list \<Rightarrow> real list \<Rightarrow> weights
      \<Rightarrow> real list list \<Rightarrow> real list list \<Rightarrow> real list list \<Rightarrow> warp"
  transform_points :: "warp \<Rightarrow> point list \<Rightarrow> point list"
  OptimizeProblem :: "Robot \<Rightarrow> request \<Rightarrow> ndarray"
  create_from_full_traj ::
    "Robot \<Rightarrow> ndarray \<times> int list \<Rightarrow> (side \<rightharpoonup> bool list) \<Rightarrow> (side \<rightharpoonup> bool list)
      \<Rightarrow> AugmentedTrajectory"

section \<open>Construction of the transferers\<close>

text \<open>
  \<^verbatim>\<open>
  class RegistrationAndTrajectoryTransferer(object):
      def __init__(self, registration_factory, trajectory_transferer):
          self.registration_factory = registration_factory
          self.trajectory_transferer = trajectory_transferer
  \<close>
  \<^verbatim>\<open>TwoStepRegistrationAndTrajectoryTransferer\<close> defines no constructor and inherits this
  one.
\<close>

definition RegistrationAndTrajectoryTransferer_init ::
  "RegistrationFactory \<Rightarrow> TrajectoryTransferer \<Rightarrow> py_error + RegistrationAndTrajectoryTransferer" where
  "RegistrationAndTrajectoryTransferer_init rf tt =
     Inr \<lparr>registration_factory = rf, trajectory_transferer = tt\<rparr>"

definition TwoStepRegistrationAndTrajectoryTransferer_init ::
  "RegistrationFactory \<Rightarrow> TrajectoryTransferer \<Rightarrow> py_error + RegistrationAndTrajectoryTransferer" where
  "TwoStepRegistrationAndTrajectoryTransferer_init rf tt =
     RegistrationAndTrajectoryTransferer_init rf tt"

definition TwoStep_transfer ::
  "RegistrationAndTrajectoryTransferer \<Rightarrow> Demonstration \<Rightarrow> SceneState \<Rightarrow> AugmentedTrajectory" where
  "TwoStep_transfer self demo test_scene =
     (let reg = register (registration_factory self) demo test_scene
      in tt_transfer (trajectory_transferer self) reg demo)"

text \<open>
  \<^verbatim>\<open>
  super(...).__init__(registration_factory, trajectory_transferer)
  if not isinstance(registration_factory, registration.TpsRpmRegistrationFactory):
      raise NotImplementedError(...)
  if not isinstance(trajectory_transferer, transfer.FingerTrajectoryTransferer):
      raise NotImplementedError(...)
  self.sim = trajectory_transferer.sim
  self.alpha = alpha ...
  \<close>
  The constructors of the unified and of the decomposed transferer are the same text.
\<close>

definition coupled_init ::
  "RegistrationFactory \<Rightarrow> TrajectoryTransferer \<Rightarrow> real \<Rightarrow> real \<Rightarrow> real \<Rightarrow> bool
     \<Rightarrow> TrajectoryTransferer option \<Rightarrow> py_error + CoupledTransferer" where
  "coupled_init rf tt a b g ucc init_tt =
     bind_r (RegistrationAndTrajectoryTransferer_init rf tt) (\<lambda>base.
       if \<not> is_TpsRpmRegistrationFactory rf then Inl NotImplementedError
       else if \<not> is_FingerTrajectoryTransferer tt then Inl NotImplementedError
       else Inr \<lparr>registration_factory = registration_factory base,
                 trajectory_transferer = trajectory_transferer base,
                 sim = tt_sim tt, alpha = a, beta_pos = b, gamma = g,
                 use_collision_cost = ucc, init_trajectory_transferer = init_tt\<rparr>)"

definition UnifiedRegistrationAndTrajectoryTransferer_init ::
  "RegistrationFactory \<Rightarrow> TrajectoryTransferer \<Rightarrow> real \<Rightarrow> real \<Rightarrow> real \<Rightarrow> bool
     \<Rightarrow> TrajectoryTransferer option \<Rightarrow> py_error + CoupledTransferer" where
  "UnifiedRegistrationAndTrajectoryTransferer_init = coupled_init"

definition DecompRegistrationAndTrajectoryTransferer_init ::
  "RegistrationFactory \<Rightarrow> TrajectoryTransferer \<Rightarrow> real \<Rightarrow> real \<Rightarrow> real \<Rightarrow> bool
     \<Rightarrow> TrajectoryTransferer option \<Rightarrow> py_error + CoupledTransferer" where
  "DecompRegistrationAndTrajectoryTransferer_init = coupled_init"

section \<open>The decomposed transferer: contact points of the demonstration\<close>

text \<open>
  The expression that resamples a trajectory occurs in \<^verbatim>\<open>traj_to_points\<close> and in
  \<^verbatim>\<open>transfer\<close>, with a different \<^verbatim>\<open>active_lr\<close>:
  \<^verbatim>\<open>
  _, timesteps_rs = sim_util.unif_resample(
      np.c_[(1./settings.JOINT_LENGTH_PER_STEP)
              * np.concatenate([aug_traj.lr2arm_traj[lr] for lr in active_lr], axis=1),
            (1./settings.FINGER_CLOSE_RATE)
              * np.concatenate([aug_traj.lr2finger_traj[lr] for lr in active_lr], axis=1)],
      1.)
  \<close>
\<close>

definition resample_timesteps ::
  "externals \<Rightarrow> AugmentedTrajectory \<Rightarrow> side list \<Rightarrow> py_error + real list" where
  "resample_timesteps ext tr active_lr =
     bind_r (py_div 1 (JOINT_LENGTH_PER_STEP ext)) (\<lambda>cj.
     bind_r (sequence_r (map (dict_get (lr2arm_traj tr)) active_lr)) (\<lambda>arm_trajs.
     bind_r (np_concatenate1 arm_trajs) (\<lambda>arm.
     bind_r (py_div 1 (FINGER_CLOSE_RATE ext)) (\<lambda>cf.
     bind_r (sequence_r (map (dict_get (lr2finger_traj tr)) active_lr)) (\<lambda>finger_trajs.
     bind_r (np_concatenate1 finger_trajs) (\<lambda>finger.
     bind_r (np_concatenate1 [np_scale cj arm, np_scale cf finger]) (\<lambda>x.
     Inr (snd (unif_resample ext x 1)))))))))"

text \<open>
  \<^verbatim>\<open>
  def traj_to_points(self, aug_traj, resampling=False):
      active_lr = "r"
      if resampling:
          _, timesteps_rs = ...
          demo_aug_traj_rs = aug_traj.get_resampled_traj(timesteps_rs)
      else:
          demo_aug_traj_rs = aug_traj
      lr = 'r'
      ...
      flr2demo_finger_pts_traj_rs = sim_util.get_finger_pts_traj(self.sim.robot, lr,
          (demo_aug_traj_rs.lr2ee_traj[lr], demo_aug_traj_rs.lr2finger_traj[lr]))
      return flr2demo_finger_pts_traj_rs
  \<close>
\<close>

definition traj_to_points ::
  "externals \<Rightarrow> CoupledTransferer \<Rightarrow> AugmentedTrajectory \<Rightarrow> bool
     \<Rightarrow> py_error + (side \<rightharpoonup> point list list)" where
  "traj_to_points ext self tr resampling =
     (let active_lr = [SideR] in
      bind_r (if resampling
              then bind_r (resample_timesteps ext tr active_lr) (\<lambda>timesteps_rs.
                     Inr (get_resampled_traj ext tr timesteps_rs))
              else Inr tr) (\<lambda>demo_aug_traj_rs.
      let lr = SideR in
      bind_r (dict_get (lr2ee_traj demo_aug_traj_rs) lr) (\<lambda>ee.
      bind_r (dict_get (lr2finger_traj demo_aug_traj_rs) lr) (\<lambda>finger.
      Inr (get_finger_pts_traj ext (robot (sim self)) lr (EeFinger ee finger))))))"

text \<open>
  \<^verbatim>\<open>
  def points_to_array(self, flr2demo_finger_pts_traj):
      temp =  np.r_[flr2demo_finger_pts_traj['l'], flr2demo_finger_pts_traj['r']]
      return temp.reshape(temp.shape[0] * temp.shape[1], temp.shape[2])
  \<close>
  The two finger trajectories have shape \<open>(n, 4, 3)\<close>: the left finger's rows come first.
\<close>

definition points_to_array :: "(side \<rightharpoonup> point list list) \<Rightarrow> py_error + point list" where
  "points_to_array flr2demo_finger_pts_traj =
     bind_r (dict_get flr2demo_finger_pts_traj SideL) (\<lambda>l.
     bind_r (dict_get flr2demo_finger_pts_traj SideR) (\<lambda>r.
     Inr (concat (l @ r))))"

section \<open>The decomposed transferer: initialization\<close>

definition expand_coef :: "nat \<Rightarrow> coef \<Rightarrow> real list" where
  "expand_coef d c = (case c of Scalar v \<Rightarrow> replicate d (1 * v) | PerDim vs \<Rightarrow> vs)"

text \<open>
  The values that lines 206 to 234 of \<^verbatim>\<open>transfer\<close> assign. \<open>init_fit_offsets\<close> is the
  seventh argument of the first call of \<^verbatim>\<open>tps.tps_fit_decomp\<close>, kept so that what the
  spline solver receives can be stated.
\<close>

record init_locals =
  init_f :: warp
  tau_bd :: "point list"
  init_lambda_bd :: "point list"
  init_fit_offsets :: "point list"
  fit_x_na :: "point list"
  fit_y_ng :: "point list"
  bend_coefs :: "real list"
  rot_coefs :: "real list"

text \<open>
  \<^verbatim>\<open>
  reg = self.registration_factory.register(demo, test_scene_state, callback=callback)
  tau_bd = self.points_to_array(self.traj_to_points(demo.aug_traj, resampling=True))
  lambda_bd = np.zeros(tau_bd.shape)
  (n,d) = reg.f.x_na.shape
  bend_coefs = np.ones(d) * reg.f.bend_coef if np.isscalar(reg.f.bend_coef) else reg.f.bend_coef
  rot_coefs = np.ones(d) * reg.f.rot_coef if np.isscalar(reg.f.rot_coef) else reg.f.rot_coef
  x_na = reg.f.x_na
  y_ng = reg.f.y_ng
  wt_n = reg.f.wt_n
  lambda_bd[:,0] = .001
  ...
  theta, (N, z) = tps.tps_fit_decomp(reg.f.x_na, reg.f.y_ng, bend_coefs, rot_coefs,
                                     reg.f.wt_n, tau_bd, lambda_bd, ret_factorization=True)
  reg.f.update(reg.f.x_na, reg.f.y_ng, bend_coefs, rot_coefs, reg.f.wt_n, theta, N=N, z=z)
  \<close>
\<close>

definition transfer_init ::
  "externals \<Rightarrow> CoupledTransferer \<Rightarrow> Demonstration \<Rightarrow> SceneState \<Rightarrow> py_error + init_locals" where
  "transfer_init ext self demo test_scene =
     (let reg = register (registration_factory self) demo test_scene in
      bind_r (traj_to_points ext self (aug_traj demo) True) (\<lambda>pts.
      bind_r (points_to_array pts) (\<lambda>tau.
      let lambda0 = map (\<lambda>_. (0, 0, 0) :: point) tau;
          d = 3;
          bcs = expand_coef d (bend_coef (reg_f reg));
          rcs = expand_coef d (rot_coef (reg_f reg));
          lam = map (\<lambda>(x, y, z). (0.001, y, z)) lambda0;
          fit = tps_fit_decomp ext (x_na (reg_f reg)) (y_ng (reg_f reg)) bcs rcs
                  (wt_n (reg_f reg)) tau lam;
          f' = update ext (reg_f reg) (x_na (reg_f reg)) (y_ng (reg_f reg)) bcs rcs
                  (wt_n (reg_f reg)) (fst fit) (fst (snd fit)) (snd (snd fit))
      in Inr \<lparr>init_f = f', tau_bd = tau, init_lambda_bd = lam, init_fit_offsets = lam,
               fit_x_na = x_na (reg_f reg), fit_y_ng = y_ng (reg_f reg),
               bend_coefs = bcs, rot_coefs = rcs\<rparr>)))"

section \<open>The decomposed transferer: trajectory set-up\<close>

text \<open>
  The variables that the loop \<^verbatim>\<open>for lr in active_lr\<close> (lines 288 to 322) assigns.
  After the loop \<open>flr2finger_link_name\<close>, \<open>flr2finger_rel_pts\<close> and \<open>last_lr\<close> (the
  loop variable \<^verbatim>\<open>lr\<close>) hold what the last active arm left in them.
\<close>

record arm_locals =
  manip_name :: string
  init_traj :: ndarray
  flr2demo_finger_pts_trajs_rs :: "(side \<rightharpoonup> point list list) list"
  flr2finger_link_names :: "(side \<rightharpoonup> string) list"
  flr2finger_link_name :: "side \<rightharpoonup> string"
  flr2finger_rel_pts :: "side \<rightharpoonup> point list"
  last_lr :: side

text \<open>
  \<^verbatim>\<open>
  for finger_lr in 'lr':
      flr2transformed_finger_pts_traj_rs[finger_lr] = reg.f.transform_points(
          np.concatenate(flr2demo_finger_pts_traj_rs[finger_lr], axis=0)).reshape((-1,4,3))
  \<close>
  The transformed points are only drawn. What remains of the statement is what it can
  raise: \<^verbatim>\<open>KeyError\<close> for a missing finger and \<^verbatim>\<open>ValueError\<close> for a finger trajectory
  without timestep.
\<close>

definition finger_pts_check :: "(side \<rightharpoonup> point list list) \<Rightarrow> side \<Rightarrow> py_error + unit" where
  "finger_pts_check flr2pts finger_lr =
     bind_r (dict_get flr2pts finger_lr) (\<lambda>pts. if pts = [] then Inl ValueError else Inr ())"

definition arm_step ::
  "externals \<Rightarrow> CoupledTransferer \<Rightarrow> AugmentedTrajectory \<Rightarrow> arm_locals \<Rightarrow> side
     \<Rightarrow> py_error + arm_locals" where
  "arm_step ext self demo_aug_traj_rs st lr =
     (let arm_name = (case lr of SideL \<Rightarrow> ''leftarm'' | SideR \<Rightarrow> ''rightarm'');
          finger_name = side_char lr @ ''_gripper_l_finger_joint'';
          manip0 = (if manip_name st \<noteq> [] then manip_name st @ ''+'' else manip_name st);
          manip = manip0 @ arm_name @ ''+'' @ finger_name
      in
      bind_r (dict_get (lr2arm_traj demo_aug_traj_rs) lr) (\<lambda>arm.
      bind_r (dict_get (lr2finger_traj demo_aug_traj_rs) lr) (\<lambda>finger.
      bind_r (np_concatenate1 [init_traj st, arm, finger]) (\<lambda>tr.
      bind_r (dict_get (lr2ee_traj demo_aug_traj_rs) lr) (\<lambda>ee.
      let pts = get_finger_pts_traj ext (robot (sim self)) lr (EeFinger ee finger) in
      bind_r (sequence_r (map (finger_pts_check pts) [SideL, SideR])) (\<lambda>_.
      let link_name = (\<lambda>finger_lr.
             Some (side_char lr @ ''_gripper_'' @ side_char finger_lr @ ''_finger_tip_link''));
          rel_pts = (\<lambda>finger_lr. Some (get_finger_rel_pts ext finger_lr))
      in Inr \<lparr>manip_name = manip, init_traj = tr,
               flr2demo_finger_pts_trajs_rs = flr2demo_finger_pts_trajs_rs st @ [pts],
               flr2finger_link_names = flr2finger_link_names st @ [link_name],
               flr2finger_link_name = link_name,
               flr2finger_rel_pts = rel_pts,
               last_lr = lr\<rparr>))))))"

fun arm_for ::
  "externals \<Rightarrow> CoupledTransferer \<Rightarrow> AugmentedTrajectory \<Rightarrow> arm_locals \<Rightarrow> side list
     \<Rightarrow> py_error + arm_locals" where
  "arm_for ext self rs st [] = Inr st"
| "arm_for ext self rs st (lr # lrs) =
     (case arm_step ext self rs st lr of Inl e \<Rightarrow> Inl e | Inr st' \<Rightarrow> arm_for ext self rs st' lrs)"

text \<open>
  \<^verbatim>\<open>
  if not self.init_trajectory_transferer:
      dof_inds = sim_util.dof_inds_from_name(self.sim.robot, manip_name)
      joint_ind = self.sim.robot.GetJointIndex("%s_shoulder_lift_joint"%lr)
      init_traj[:,dof_inds.index(joint_ind)] = self.sim.robot.GetDOFLimits([joint_ind])[0][0]
  \<close>
  The right-hand side of the assignment is evaluated before the index.
\<close>

definition shoulder_lift ::
  "externals \<Rightarrow> CoupledTransferer \<Rightarrow> arm_locals \<Rightarrow> py_error + arm_locals" where
  "shoulder_lift ext self st =
     (if init_trajectory_transferer self = None then
        let rb = robot (sim self);
            dof_inds = dof_inds_from_name ext rb (manip_name st);
            joint_ind = GetJointIndex rb (side_char (last_lr st) @ ''_shoulder_lift_joint'')
        in
        bind_r (case fst (GetDOFLimits rb [joint_ind]) of [] \<Rightarrow> Inl IndexError | v # _ \<Rightarrow> Inr v)
          (\<lambda>limit.
        bind_r (list_index dof_inds joint_ind) (\<lambda>k.
        bind_r (set_column k limit (init_traj st)) (\<lambda>tr.
        Inr (st\<lparr>init_traj := tr\<rparr>))))
      else Inr st)"

text \<open>
  Lines 274 to 328:
  \<^verbatim>\<open>
  active_lr = ""
  for lr in 'lr':
      if lr in demo.aug_traj.lr2arm_traj and sim_util.arm_moved(demo.aug_traj.lr2arm_traj[lr]):
          active_lr += lr
  _, timesteps_rs = sim_util.unif_resample(...)
  demo_aug_traj_rs = demo.aug_traj.get_resampled_traj(timesteps_rs)
  manip_name = ""
  flr2finger_link_names = []
  flr2demo_finger_pts_trajs_rs = []
  init_traj = np.zeros((len(timesteps_rs),0))
  for lr in active_lr: ...
  if not self.init_trajectory_transferer: ...
  \<close>
  Before the loop over the arms \<^verbatim>\<open>lr\<close> is \<^verbatim>\<open>'r'\<close> (line 251) and the two dictionaries
  of the last arm are not bound; with no active arm the resampling has raised before they
  are read.
\<close>

definition is_active :: "externals \<Rightarrow> AugmentedTrajectory \<Rightarrow> side \<Rightarrow> bool" where
  "is_active ext tr lr =
     (case lr2arm_traj tr lr of None \<Rightarrow> False | Some arm \<Rightarrow> arm_moved ext arm)"

definition transfer_arms ::
  "externals \<Rightarrow> CoupledTransferer \<Rightarrow> Demonstration
     \<Rightarrow> py_error + (AugmentedTrajectory \<times> arm_locals)" where
  "transfer_arms ext self demo =
     (let active_lr = filter (is_active ext (aug_traj demo)) [SideL, SideR] in
      bind_r (resample_timesteps ext (aug_traj demo) active_lr) (\<lambda>timesteps_rs.
      let demo_aug_traj_rs = get_resampled_traj ext (aug_traj demo) timesteps_rs;
          st0 = \<lparr>manip_name = [], init_traj = np_zeros (length timesteps_rs) 0,
                 flr2demo_finger_pts_trajs_rs = [], flr2finger_link_names = [],
                 flr2finger_link_name = Map.empty, flr2finger_rel_pts = Map.empty,
                 last_lr = SideR\<rparr>
      in
      bind_r (arm_for ext self demo_aug_traj_rs st0 active_lr) (\<lambda>st.
      bind_r (shoulder_lift ext self st) (\<lambda>st'.
      Inr (demo_aug_traj_rs, st')))))"

section \<open>The decomposed transferer: the request\<close>

text \<open>
  \<^verbatim>\<open>
  if f.wt_n is None:
      wt_n = np.ones(n)
  else:
      wt_n = f.wt_n
  if wt_n.ndim == 1:
      wt_n = wt_n[:,None]
  if wt_n.shape[1] == 1:
      wt_n = np.tile(wt_n, (1,d))
  \<close>
\<close>

definition expand_wt_n :: "nat \<Rightarrow> nat \<Rightarrow> weights \<Rightarrow> weights" where
  "expand_wt_n n d w =
     (let w1 = (case w of WtNone \<Rightarrow> Wt1 (replicate n 1) | _ \<Rightarrow> w);
          w2 = (case w1 of Wt1 v \<Rightarrow> map (\<lambda>x. [x]) v | Wt2 m \<Rightarrow> m | WtNone \<Rightarrow> [])
      in if list_all (\<lambda>r. length r = 1) w2
         then Wt2 (map (\<lambda>r. concat (replicate d r)) w2)
         else Wt2 w2)"

text \<open>
  \<^verbatim>\<open>
  request = {
      "basic_info" : {"n_steps" : n_steps, "manip" : manip_name, "start_fixed" : start_fixed},
      "costs" : [{"type" : "joint_vel", "params": {"coeffs" : [self.gamma/(n_steps-1)]}}],
      "constraints" : [],
  }
  if self.use_collision_cost:
      request["costs"].append({"type" : "collision",
          "params" : {"continuous" : True, "coeffs" : [1000], "dist_pen" : [0.025]}})
  \<close>
  \<^verbatim>\<open>start_fixed\<close> is \<^verbatim>\<open>False\<close> throughout. The division is Python's: with two
  steps or more it is defined, with one step it raises.
\<close>

definition initial_request :: "CoupledTransferer \<Rightarrow> nat \<Rightarrow> string \<Rightarrow> py_error + request" where
  "initial_request self n manip =
     bind_r (py_div (gamma self) (real_of_int (int n - 1))) (\<lambda>c.
     Inr \<lparr>basic_info_n_steps = n, basic_info_manip = manip, basic_info_start_fixed = False,
          costs = [JointVel [c]]
                  @ (if use_collision_cost self then [Collision True [1000] [0.025]] else []),
          constraints = [], init_info = None\<rparr>)"

text \<open>
  The values the alternating loop reads and does not assign.
\<close>

record loop_env =
  ini :: init_locals
  arms :: arm_locals
  demo_aug_traj_rs :: AugmentedTrajectory
  n_steps :: nat
  fit_wt_n :: weights
  request0 :: request
  traj_diff_thresh :: real

text \<open>
  Lines 338 to 410: the assertions, the expanded weights, the request and the constants of
  the loop. \<^verbatim>\<open>traj_diff_thresh = 1e-2*lambda_bd.size\<close>, and the size of an array of
  shape \<open>(m, 3)\<close> is \<open>3 m\<close>.
\<close>

definition transfer_request ::
  "externals \<Rightarrow> CoupledTransferer \<Rightarrow> init_locals \<Rightarrow> AugmentedTrajectory \<Rightarrow> arm_locals
     \<Rightarrow> py_error + loop_env" where
  "transfer_request ext self i rs st =
     (let n = length (rows (init_traj st));
          dof_inds = dof_inds_from_name ext (robot (sim self)) (manip_name st)
      in
      if ncols (init_traj st) \<noteq> length dof_inds then Inl AssertionError
      else if \<not> list_all (\<lambda>flr2pts. list_all
                 (\<lambda>finger_lr. case flr2pts finger_lr of None \<Rightarrow> True | Some pts \<Rightarrow> length pts = n)
                 [SideL, SideR]) (flr2demo_finger_pts_trajs_rs st)
      then Inl AssertionError
      else if length (flr2finger_link_names st) \<noteq> length (flr2demo_finger_pts_trajs_rs st)
      then Inl AssertionError
      else
        let w = expand_wt_n (length (x_na (init_f i))) 3 (wt_n (init_f i)) in
        bind_r (initial_request self n (manip_name st)) (\<lambda>req.
        Inr \<lparr>ini = i, arms = st, demo_aug_traj_rs = rs, n_steps = n, fit_wt_n = w,
             request0 = req,
             traj_diff_thresh = 0.01 * real (3 * length (init_lambda_bd i))\<rparr>))"

section \<open>The decomposed transferer: the alternating loop\<close>

text \<open>
  \<^verbatim>\<open>
  nu = 0.001
  traj_diff_thresh = 1e-2*lambda_bd.size
  max_iter = 20
  cur_traj = init_traj
  for itr in range(max_iter): ...
  \<close>
\<close>

definition nu :: real where
  "nu = 0.001"

definition max_iter :: nat where
  "max_iter = 20"

text \<open>The variables that every iteration reads and assigns anew.\<close>

record loop_state =
  lambda_bd :: "point list"
  cur_traj :: ndarray
  cur_f :: warp

text \<open>
  The values of one iteration. \<open>request_i\<close> is the request serialized for the trajectory
  optimizer and \<open>fit_offsets\<close> the seventh argument of \<^verbatim>\<open>tps.tps_fit_decomp\<close> in this
  iteration; the others are the local variables of the same names.
\<close>

record iter_locals =
  request_i :: request
  fit_offsets :: "point list"
  trajpts_tps :: "point list"
  trajpts_traj :: "point list"
  traj_diff :: "point list"
  abs_traj_diff :: real

text \<open>\<^verbatim>\<open>range(0, stop, 4)\<close>\<close>

definition py_range4 :: "nat \<Rightarrow> nat list" where
  "py_range4 stop = map (\<lambda>k. 4 * k) [0..<(stop + 3) div 4]"

text \<open>
  \<^verbatim>\<open>
  traj_dim = int(lambda_bd.shape[0]/2)
  for i_step in range(0,traj_dim*2, 4):
    if i_step < traj_dim:
      finger_lr = 'l'
      traj_step = i_step
    else:
      finger_lr = 'r'
      traj_step = i_step - traj_dim
    finger_link_name = flr2finger_link_name[finger_lr]
    finger_rel_pts = flr2finger_rel_pts[finger_lr]
    if start_fixed and traj_step==0: continue
    request_i["costs"].append(
        {"type":"rel_pts_lambdas",
          "params":{
            "lambdas":(-lambda_bd[traj_step:traj_step+4,:]).tolist(),
            "rel_xyzs":finger_rel_pts.tolist(),
            "link":finger_link_name,
            "timestep":traj_step/4,
            "pos_coeffs":[self.beta_pos/n_steps]*4,
            }
          })
  \<close>
  The file imports true division, so \<^verbatim>\<open>traj_step/4\<close> is a float.
\<close>

definition rel_pts_lambdas_cost ::
  "CoupledTransferer \<Rightarrow> loop_env \<Rightarrow> point list \<Rightarrow> nat \<Rightarrow> py_error + cost" where
  "rel_pts_lambdas_cost self env lam i_step =
     (let traj_dim = length lam div 2;
          finger_lr = (if i_step < traj_dim then SideL else SideR);
          traj_step = (if i_step < traj_dim then i_step else i_step - traj_dim)
      in
      bind_r (dict_get (flr2finger_link_name (arms env)) finger_lr) (\<lambda>finger_link_name.
      bind_r (dict_get (flr2finger_rel_pts (arms env)) finger_lr) (\<lambda>finger_rel_pts.
      bind_r (py_div (beta_pos self) (real (n_steps env))) (\<lambda>w.
      Inr (RelPtsLambdas (map pneg (take 4 (drop traj_step lam))) finger_rel_pts
             finger_link_name (real traj_step / 4) (replicate 4 w))))))"

text \<open>
  \<^verbatim>\<open>
  request_i = copy.deepcopy(request)
  ...
  request_i["init_info"] = {"type":"given_traj", "data":[x.tolist() for x in cur_traj]}
  \<close>
  followed by the loop over \<^verbatim>\<open>i_step\<close>. The points transformed at line 419 are not used,
  and their computation cannot raise here: the same finger trajectories have passed
  \<open>finger_pts_check\<close>.
\<close>

definition build_request_i ::
  "CoupledTransferer \<Rightarrow> loop_env \<Rightarrow> loop_state \<Rightarrow> py_error + request" where
  "build_request_i self env st =
     (let req = (request0 env)\<lparr>init_info := Some (rows (cur_traj st))\<rparr>;
          traj_dim = length (lambda_bd st) div 2
      in
      bind_r (sequence_r (map (rel_pts_lambdas_cost self env (lambda_bd st))
                (py_range4 (traj_dim * 2)))) (\<lambda>cs.
      Inr (req\<lparr>costs := costs req @ cs\<rparr>)))"

text \<open>
  The rest of the body of the loop, up to the update of the dual variables:
  \<^verbatim>\<open>
  cur_traj = result.GetTraj()
  theta, (N, z) = tps.tps_fit_decomp(x_na, y_ng, bend_coefs, rot_coefs, wt_n, tau_bd,
                                     -lambda_bd, ret_factorization=True)
  f.update(x_na, y_ng, bend_coefs, rot_coefs, wt_n, theta, N=N, z=z)
  trajpts_tps = reg.f.transform_points(tau_bd)
  full_traj = (cur_traj, sim_util.dof_inds_from_name(self.sim.robot, manip_name))
  trajpts_traj = self.points_to_array(sim_util.get_finger_pts_traj(self.sim.robot, 'r', full_traj))
  traj_diff = trajpts_traj - trajpts_tps;
  abs_traj_diff = sum(sum(abs(traj_diff)))
  lambda_bd = lambda_bd - nu * traj_diff
  \<close>
\<close>

definition decomp_iteration ::
  "externals \<Rightarrow> CoupledTransferer \<Rightarrow> loop_env \<Rightarrow> loop_state
     \<Rightarrow> py_error + (loop_state \<times> iter_locals)" where
  "decomp_iteration ext self env st =
     bind_r (build_request_i self env st) (\<lambda>req.
     let rb = robot (sim self);
         i = ini env;
         traj = OptimizeProblem ext rb req;
         offs = map pneg (lambda_bd st);
         fit = tps_fit_decomp ext (fit_x_na i) (fit_y_ng i) (bend_coefs i) (rot_coefs i)
                 (fit_wt_n env) (tau_bd i) offs;
         f' = update ext (cur_f st) (fit_x_na i) (fit_y_ng i) (bend_coefs i) (rot_coefs i)
                 (fit_wt_n env) (fst fit) (fst (snd fit)) (snd (snd fit));
         tps_pts = transform_points ext f' (tau_bd i);
         dof_inds = dof_inds_from_name ext rb (manip_name (arms env))
     in
     bind_r (points_to_array (get_finger_pts_traj ext rb SideR (FullTraj traj dof_inds)))
       (\<lambda>traj_pts.
     bind_r (np_sub traj_pts tps_pts) (\<lambda>diff.
     bind_r (py_sum_sum_abs diff) (\<lambda>abs_diff.
     bind_r (np_sub (lambda_bd st) (map (pscale nu) diff)) (\<lambda>lam'.
     Inr (\<lparr>lambda_bd = lam', cur_traj = traj, cur_f = f'\<rparr>,
          \<lparr>request_i = req, fit_offsets = offs, trajpts_tps = tps_pts,
           trajpts_traj = traj_pts, traj_diff = diff, abs_traj_diff = abs_diff\<rparr>))))))"

text \<open>
  The loop over \<^verbatim>\<open>range(max_iter)\<close> with its exit
  \<^verbatim>\<open>
  if abs_traj_diff < traj_diff_thresh:
    print "TRAJECTORIES CONVERGED"
    break
  \<close>
  The result is the state after the last iteration that ran, with the values of every
  iteration that ran, in order.
\<close>

fun decomp_for ::
  "externals \<Rightarrow> CoupledTransferer \<Rightarrow> loop_env \<Rightarrow> nat list \<Rightarrow> loop_state
     \<Rightarrow> py_error + (loop_state \<times> iter_locals list)" where
  "decomp_for ext self env [] st = Inr (st, [])"
| "decomp_for ext self env (itr # itrs) st =
     (case decomp_iteration ext self env st of
        Inl e \<Rightarrow> Inl e
      | Inr (st', loc) \<Rightarrow>
          if abs_traj_diff loc < traj_diff_thresh env then Inr (st', [loc])
          else (case decomp_for ext self env itrs st' of
                  Inl e \<Rightarrow> Inl e
                | Inr (st'', locs) \<Rightarrow> Inr (st'', loc # locs)))"

section \<open>The decomposed transferer: transfer\<close>

text \<open>
  The local variables at the end of \<^verbatim>\<open>transfer\<close>:
  \<^verbatim>\<open>
  full_traj = (cur_traj, sim_util.dof_inds_from_name(self.sim.robot, manip_name))
  test_aug_traj = demonstration.AugmentedTrajectory.create_from_full_traj(
      self.sim.robot, full_traj,
      lr2open_finger_traj=demo_aug_traj_rs.lr2open_finger_traj,
      lr2close_finger_traj=demo_aug_traj_rs.lr2close_finger_traj)
  \<close>
\<close>

record transfer_locals =
  env_of :: loop_env
  final_state :: loop_state
  iterations :: "iter_locals list"
  test_aug_traj :: AugmentedTrajectory

definition transfer_body ::
  "externals \<Rightarrow> CoupledTransferer \<Rightarrow> Demonstration \<Rightarrow> SceneState \<Rightarrow> py_error + transfer_locals" where
  "transfer_body ext self demo test_scene =
     bind_r (transfer_init ext self demo test_scene) (\<lambda>i.
     bind_r (transfer_arms ext self demo) (\<lambda>(rs, st).
     bind_r (transfer_request ext self i rs st) (\<lambda>env.
     bind_r (decomp_for ext self env [0..<max_iter]
               \<lparr>lambda_bd = init_lambda_bd i, cur_traj = init_traj st, cur_f = init_f i\<rparr>)
       (\<lambda>(fin, its).
     let full_traj = (cur_traj fin,
                      dof_inds_from_name ext (robot (sim self)) (manip_name st))
     in Inr \<lparr>env_of = env, final_state = fin, iterations = its,
              test_aug_traj = create_from_full_traj ext (robot (sim self)) full_traj
                (lr2open_finger_traj rs) (lr2close_finger_traj rs)\<rparr>))))"

text \<open>
  After the assignment of \<^verbatim>\<open>test_aug_traj\<close> only the block guarded by \<^verbatim>\<open>plotting\<close>
  follows. The function has no \<^verbatim>\<open>return\<close> statement, so a call that does not raise
  evaluates to \<^verbatim>\<open>None\<close>.
\<close>

definition transfer ::
  "externals \<Rightarrow> CoupledTransferer \<Rightarrow> Demonstration \<Rightarrow> SceneState
     \<Rightarrow> py_error + AugmentedTrajectory option" where
  "transfer ext self demo test_scene =
     bind_r (transfer_body ext self demo test_scene) (\<lambda>_. Inr None)"

section \<open>Replacing what the kinematics report for the left gripper\<close>


section \<open>A concrete demonstration and concrete collaborators\<close>

text \<open>
  A small instance on which the definitions are evaluated: a demonstration of two timesteps
  in which only the right arm is present, an arm of two joints and one finger joint,
  an identity warp, an optimizer that halves every joint value of its initial guess, and
  kinematics that shift the contact points of a full trajectory by its first joint value.
\<close>

definition ex_robot :: Robot where
  "ex_robot = \<lparr>GetJointIndex = (\<lambda>name. 28), GetDOFLimits = (\<lambda>inds. ([- 1 / 2], [13 / 10]))\<rparr>"

definition ex_sim :: Simulation where
  "ex_sim = \<lparr>robot = ex_robot\<rparr>"

definition ex_warp :: warp where
  "ex_warp = \<lparr>x_na = [(0, 0, 0), (1, 0, 0)], y_ng = [(0, 0, 0), (1, 0, 0)],
              bend_coef = Scalar (1 / 10), rot_coef = PerDim [1 / 10000, 1 / 10000, 1 / 10],
              wt_n = WtNone, theta = [], factorization = ([], [])\<rparr>"

definition ex_factory :: RegistrationFactory where
  "ex_factory = \<lparr>is_TpsRpmRegistrationFactory = True,
                 register = (\<lambda>demo scene. \<lparr>reg_f = ex_warp, test_scene_state = scene\<rparr>)\<rparr>"

definition ex_transferer :: TrajectoryTransferer where
  "ex_transferer = \<lparr>is_FingerTrajectoryTransferer = True, tt_sim = ex_sim,
                    tt_transfer = (\<lambda>reg demo. aug_traj demo)\<rparr>"

definition ex_other_factory :: RegistrationFactory where
  "ex_other_factory = ex_factory\<lparr>is_TpsRpmRegistrationFactory := False\<rparr>"

definition ex_other_transferer :: TrajectoryTransferer where
  "ex_other_transferer = ex_transferer\<lparr>is_FingerTrajectoryTransferer := False\<rparr>"

definition ex_self :: CoupledTransferer where
  "ex_self = \<lparr>registration_factory = ex_factory, trajectory_transferer = ex_transferer,
              sim = ex_sim, alpha = 1000000, beta_pos = 1000000, gamma = 1000,
              use_collision_cost = True, init_trajectory_transferer = None\<rparr>"

definition ex_aug_traj :: AugmentedTrajectory where
  "ex_aug_traj =
     \<lparr>lr2arm_traj = [SideR \<mapsto> \<lparr>ncols = 2, rows = [[1 / 10, 1 / 2], [1 / 5, 1 / 2]]\<rparr>],
      lr2finger_traj = [SideR \<mapsto> \<lparr>ncols = 1, rows = [[1 / 2], [1 / 4]]\<rparr>],
      lr2ee_traj = [SideR \<mapsto> [[], []]],
      lr2open_finger_traj = [SideR \<mapsto> [False, False]],
      lr2close_finger_traj = [SideR \<mapsto> [False, True]]\<rparr>"

definition ex_demo :: Demonstration where
  "ex_demo = \<lparr>scene_state = [[0, 0, 0], [1, 0, 0]], aug_traj = ex_aug_traj\<rparr>"

definition ex_scene :: SceneState where
  "ex_scene = [[0, 0, 1], [1, 0, 1]]"

definition ex_square :: "real \<Rightarrow> real \<Rightarrow> point list" where
  "ex_square x t = [(x, 0, t), (x, 1, t), (x + 1, 0, t), (x + 1, 1, t)]"

definition ex_pts :: "real \<Rightarrow> (side \<rightharpoonup> point list list)" where
  "ex_pts shift = [SideL \<mapsto> [ex_square shift 0, ex_square shift 1],
                   SideR \<mapsto> [ex_square (2 + shift) 0, ex_square (2 + shift) 1]]"

definition ex_batch_cost :: "unit \<Rightarrow> (string \<times> real) list" where
  "ex_batch_cost u = [(''demo_b'', 2), (''demo_a'', 1 / 2), (''demo_c'', 2)]"

definition ex_ext :: externals where
  "ex_ext =
     \<lparr>JOINT_LENGTH_PER_STEP = 1 / 10,
      FINGER_CLOSE_RATE = 1 / 10,
      unif_resample = (\<lambda>x t. (x, [0, 1])),
      get_resampled_traj = (\<lambda>tr ts. tr),
      arm_moved = (\<lambda>a. True),
      get_finger_pts_traj = (\<lambda>rb lr arg.
         case arg of
           EeFinger ee fin \<Rightarrow> ex_pts 0
         | FullTraj tr dofs \<Rightarrow> ex_pts (case rows tr of (v # _) # _ \<Rightarrow> v | _ \<Rightarrow> 0)),
      get_finger_rel_pts = (\<lambda>finger_lr. ex_square 0 0),
      dof_inds_from_name = (\<lambda>rb name. [27, 28, 29]),
      tps_fit_decomp = (\<lambda>x y b r w tau offs. ([], ([], []))),
      update = (\<lambda>f x y b r w th N z. f\<lparr>theta := th, factorization := (N, z)\<rparr>),
      transform_points = (\<lambda>f pts. pts),
      OptimizeProblem = (\<lambda>rb req.
         case init_info req of
           None \<Rightarrow> \<lparr>ncols = 0, rows = []\<rparr>
         | Some rws \<Rightarrow> \<lparr>ncols = 3, rows = map (map (\<lambda>v. v / 2)) rws\<rparr>),
      create_from_full_traj = (\<lambda>rb full op cl.
         \<lparr>lr2arm_traj = [SideR \<mapsto> \<lparr>ncols = 2, rows = map (take 2) (rows (fst full))\<rparr>],
          lr2finger_traj = [SideR \<mapsto> \<lparr>ncols = 1, rows = map (drop 2) (rows (fst full))\<rparr>],
          lr2ee_traj = Map.empty,
          lr2open_finger_traj = op,
          lr2close_finger_traj = cl\<rparr>)\<rparr>"

section \<open>Evaluation of the concrete instance\<close>

lemmas ex_defs =
  ex_robot_def ex_sim_def ex_warp_def ex_factory_def ex_transferer_def ex_other_factory_def
  ex_other_transferer_def ex_self_def ex_aug_traj_def ex_demo_def ex_scene_def ex_square_def
  ex_pts_def ex_ext_def

lemmas array_defs =
  bind_r_def py_div_def dict_get_def np_concatenate1_def np_scale_def np_zeros_def
  set_column_def np_sub_def py_sum_sum_abs_def pneg_def pabs_def padd_def psub_def pscale_def
  side_char_def

lemmas init_defs =
  transfer_init_def traj_to_points_def resample_timesteps_def points_to_array_def
  expand_coef_def

lemmas setup_defs =
  transfer_arms_def is_active_def arm_step_def finger_pts_check_def shoulder_lift_def
  transfer_request_def expand_wt_n_def initial_request_def

lemmas loop_defs =
  max_iter_def nu_def decomp_iteration_def build_request_i_def rel_pts_lambdas_cost_def
  py_range4_def

section \<open>Greedy action selection: properties\<close>

lemma sorted_fst_of_sorted:
  fixes ts :: "('q::linorder \<times> 'a::linorder) list"
  shows "sorted ts \<Longrightarrow> sorted (map fst ts)"
  unfolding sorted_map by (erule sorted_wrt_mono_rel[rotated]) (auto simp: less_eq_prod_def)

lemma plan_agenda_eq:
  assumes "batch_cost s \<noteq> []"
  shows "plan_agenda batch_cost s =
     Inr (map snd (sort (map (\<lambda>(a, q). (q, a)) (batch_cost s))),
          map fst (sort (map (\<lambda>(a, q). (q, a)) (batch_cost s))))"
proof -
  from assms have "length (sort (map (\<lambda>(a, q). (q, a)) (batch_cost s))) \<noteq> 0"
    by simp
  then have "sort (map (\<lambda>(a, q). (q, a)) (batch_cost s)) \<noteq> []"
    by (metis list.size(3))
  then show ?thesis
    by (simp add: plan_agenda_def zip_star_def bind_r_def Let_def)
qed

lemma zip_snd_fst_swap: "zip (map snd ts) (map fst ts) = map (\<lambda>(q, a). (a, q)) ts"
  by (induction ts) auto

lemma mset_swap_sort:
  fixes items :: "('a::linorder \<times> 'q::linorder) list"
  shows "mset (map (\<lambda>(q, a). (a, q)) (sort (map (\<lambda>(a, q). (q, a)) items))) = mset items"
proof -
  have "mset (map (\<lambda>(q, a). (a, q)) (sort (map (\<lambda>(a, q). (q, a)) items)))
      = image_mset (\<lambda>(q, a). (a, q)) (image_mset (\<lambda>(a, q). (q, a)) (mset items))"
    by simp
  also have "\<dots> = mset items"
    by (simp add: image_mset.compositionality comp_def case_prod_beta)
  finally show ?thesis .
qed

text \<open>
  C7. When the oracle returns a non-empty mapping (an association list with distinct
  actions), \<open>plan_agenda\<close> returns an agenda and a list of costs of the same length such
  that the (action, cost) pairs are a permutation of the oracle's mapping, the agenda is a
  permutation of the candidate actions without repetition, the costs are in non-decreasing
  order, and the cost at each position is the oracle's cost of the action at that position.
\<close>

theorem plan_agenda_sorted_permutation:
  fixes batch_cost :: "'s \<Rightarrow> ('a::linorder \<times> 'q::linorder) list"
  assumes dist: "distinct (map fst (batch_cost s))"
    and nonempty: "batch_cost s \<noteq> []"
  shows "\<exists>agenda q_values.
           plan_agenda batch_cost s = Inr (agenda, q_values) \<and>
           length q_values = length agenda \<and>
           mset (zip agenda q_values) = mset (batch_cost s) \<and>
           mset agenda = mset (map fst (batch_cost s)) \<and>
           distinct agenda \<and>
           sorted q_values \<and>
           (\<forall>i < length agenda. map_of (batch_cost s) (agenda ! i) = Some (q_values ! i))"
proof -
  define ts where "ts = sort (map (\<lambda>(a, q). (q, a)) (batch_cost s))"
  define agenda where "agenda = map snd ts"
  define q_values where "q_values = map fst ts"
  have run: "plan_agenda batch_cost s = Inr (agenda, q_values)"
    using plan_agenda_eq[of batch_cost s] nonempty by (simp add: ts_def agenda_def q_values_def)
  have len: "length q_values = length agenda"
    by (simp add: agenda_def q_values_def)
  have pairs: "mset (zip agenda q_values) = mset (batch_cost s)"
    unfolding agenda_def q_values_def zip_snd_fst_swap ts_def by (rule mset_swap_sort)
  have "mset (map fst (zip agenda q_values)) = mset (map fst (batch_cost s))"
    using pairs by (metis mset_map)
  then have keys: "mset agenda = mset (map fst (batch_cost s))"
    using len by simp
  have dist': "distinct agenda"
    using keys dist by (metis mset_eq_imp_distinct_iff)
  have srt: "sorted q_values"
    unfolding q_values_def ts_def by (rule sorted_fst_of_sorted) simp
  have look: "map_of (batch_cost s) (agenda ! i) = Some (q_values ! i)" if "i < length agenda" for i
  proof -
    have "(agenda ! i, q_values ! i) \<in> set (zip agenda q_values)"
      using that len by (metis in_set_conv_nth length_zip min.idem nth_zip)
    then have "(agenda ! i, q_values ! i) \<in> set (batch_cost s)"
      using pairs by (metis set_mset_mset)
    then show ?thesis using dist by simp
  qed
  show ?thesis using run len pairs keys dist' srt look by blast
qed

theorem plan_agenda_sorted_permutation_witness:
  "distinct (map fst (ex_batch_cost ())) \<and> ex_batch_cost () \<noteq> [] \<and>
   (\<exists>agenda q_values.
      plan_agenda ex_batch_cost () = Inr (agenda, q_values) \<and>
      length q_values = length agenda \<and>
      mset (zip agenda q_values) = mset (ex_batch_cost ()) \<and>
      mset agenda = mset (map fst (ex_batch_cost ())) \<and>
      distinct agenda \<and>
      sorted q_values \<and>
      (\<forall>i < length agenda. map_of (ex_batch_cost ()) (agenda ! i) = Some (q_values ! i)))"
proof -
  have d: "distinct (map fst (ex_batch_cost ()))" and n: "ex_batch_cost () \<noteq> []"
    by (simp_all add: ex_batch_cost_def)
  show ?thesis
    using d n plan_agenda_sorted_permutation[of ex_batch_cost "()", OF d n] by blast
qed

text \<open>
  C8. On the empty mapping \<open>plan_agenda\<close> does not return a pair of empty sequences:
  unpacking \<^verbatim>\<open>zip(*[])\<close> into two names raises \<^verbatim>\<open>ValueError\<close>.
\<close>

theorem plan_agenda_empty_raises:
  "plan_agenda (\<lambda>scene_state. ([] :: (string \<times> real) list)) () = Inl ValueError"
  by (simp add: plan_agenda_def zip_star_def bind_r_def)

section \<open>Construction of the transferers: properties\<close>

text \<open>
  C6, as the claim states it, fails for the two-step transferer: built with a registration
  factory that is not a \<^verbatim>\<open>TpsRpmRegistrationFactory\<close> and a trajectory transferer that
  is not a \<^verbatim>\<open>FingerTrajectoryTransferer\<close>, its constructor returns the object.
\<close>

theorem two_step_init_counterexample:
  "\<not> is_TpsRpmRegistrationFactory ex_other_factory \<and>
   \<not> is_FingerTrajectoryTransferer ex_other_transferer \<and>
   TwoStepRegistrationAndTrajectoryTransferer_init ex_other_factory ex_other_transferer =
     Inr \<lparr>registration_factory = ex_other_factory, trajectory_transferer = ex_other_transferer\<rparr>"
  by (simp add: TwoStepRegistrationAndTrajectoryTransferer_init_def
      RegistrationAndTrajectoryTransferer_init_def ex_other_factory_def ex_other_transferer_def)

text \<open>
  C6, amended. The constructors of the unified and of the decomposed transferer raise
  \<^verbatim>\<open>NotImplementedError\<close> when the registration factory is not a
  \<^verbatim>\<open>TpsRpmRegistrationFactory\<close> or the trajectory transferer is not a
  \<^verbatim>\<open>FingerTrajectoryTransferer\<close>, and return the configured object otherwise; the
  constructor of the two-step transferer accepts every registration factory and every
  trajectory transferer.
\<close>

theorem transferer_init_guards:
  "UnifiedRegistrationAndTrajectoryTransferer_init rf tt a b g ucc init_tt =
     (if is_TpsRpmRegistrationFactory rf \<and> is_FingerTrajectoryTransferer tt
      then Inr \<lparr>registration_factory = rf, trajectory_transferer = tt, sim = tt_sim tt,
                alpha = a, beta_pos = b, gamma = g, use_collision_cost = ucc,
                init_trajectory_transferer = init_tt\<rparr>
      else Inl NotImplementedError) \<and>
   DecompRegistrationAndTrajectoryTransferer_init rf tt a b g ucc init_tt =
     (if is_TpsRpmRegistrationFactory rf \<and> is_FingerTrajectoryTransferer tt
      then Inr \<lparr>registration_factory = rf, trajectory_transferer = tt, sim = tt_sim tt,
                alpha = a, beta_pos = b, gamma = g, use_collision_cost = ucc,
                init_trajectory_transferer = init_tt\<rparr>
      else Inl NotImplementedError) \<and>
   TwoStepRegistrationAndTrajectoryTransferer_init rf tt =
     Inr \<lparr>registration_factory = rf, trajectory_transferer = tt\<rparr>"
  by (simp add: UnifiedRegistrationAndTrajectoryTransferer_init_def
      DecompRegistrationAndTrajectoryTransferer_init_def coupled_init_def
      TwoStepRegistrationAndTrajectoryTransferer_init_def
      RegistrationAndTrajectoryTransferer_init_def bind_r_def)

theorem transferer_init_guards_witness:
  "UnifiedRegistrationAndTrajectoryTransferer_init ex_other_factory ex_transferer 1 1 1 True None =
     Inl NotImplementedError \<and>
   DecompRegistrationAndTrajectoryTransferer_init ex_factory ex_other_transferer 1 1 1 True None =
     Inl NotImplementedError \<and>
   DecompRegistrationAndTrajectoryTransferer_init ex_factory ex_transferer
     1000000 1000000 1000 True None = Inr ex_self"
  using transferer_init_guards[of ex_other_factory ex_transferer 1 1 1 True None]
    transferer_init_guards[of ex_factory ex_other_transferer 1 1 1 True None]
    transferer_init_guards[of ex_factory ex_transferer 1000000 1000000 1000 True None]
  by (simp add: ex_defs)

section \<open>The decomposed transferer: initialization of the dual variables\<close>






section \<open>The decomposed transferer: one iteration\<close>




subsection \<open>The discrepancy and the dual step\<close>







subsection \<open>The request of an iteration\<close>



lemma transfer_request_Inr:
  assumes "transfer_request ext self i rs arm = Inr env"
  shows "ini env = i" and "arms env = arm" and "demo_aug_traj_rs env = rs"
    and "n_steps env = length (rows (init_traj arm))"
    and "traj_diff_thresh env = 0.01 * real (3 * length (init_lambda_bd i))"
    and "costs (request0 env) =
           JointVel [gamma self / (real (n_steps env) - 1)]
           # (if use_collision_cost self then [Collision True [1000] [0.025]] else [])"
    and "list_all (\<lambda>flr2pts. list_all
           (\<lambda>finger_lr. case flr2pts finger_lr of None \<Rightarrow> True
                         | Some pts \<Rightarrow> length pts = length (rows (init_traj arm)))
              [SideL, SideR])
           (flr2demo_finger_pts_trajs_rs arm)"
  using assms
  by (auto simp: transfer_request_def initial_request_def py_div_def bind_r_def Let_def
      split: if_splits sum.splits)







subsection \<open>The signs of the dual variables\<close>

lemma ex_transfer_body_returns:
  "\<exists>t. transfer_body ex_ext ex_self ex_demo ex_scene = Inr t"
  by (simp add: transfer_body_def init_defs setup_defs loop_defs ex_defs array_defs Let_def upt_rec)




section \<open>The decomposed transferer: the set-up leaves the loop well-formed\<close>








section \<open>The decomposed transferer: termination of the loop\<close>







lemma transfer_body_Inr:
  assumes "transfer_body ext self demo test_scene = Inr t"
  shows "\<exists>i rs arm.
           transfer_init ext self demo test_scene = Inr i \<and>
           transfer_arms ext self demo = Inr (rs, arm) \<and>
           transfer_request ext self i rs arm = Inr (env_of t) \<and>
           decomp_for ext self (env_of t) [0..<max_iter]
             \<lparr>lambda_bd = init_lambda_bd i, cur_traj = init_traj arm, cur_f = init_f i\<rparr>
             = Inr (final_state t, iterations t) \<and>
           test_aug_traj t =
             create_from_full_traj ext (robot (sim self))
               (cur_traj (final_state t),
                dof_inds_from_name ext (robot (sim self)) (manip_name arm))
               (lr2open_finger_traj rs) (lr2close_finger_traj rs)"
  using assms
  by (auto simp: transfer_body_def bind_r_def Let_def split: sum.splits prod.splits)





section \<open>The decomposed transferer: the result of transfer\<close>

lemma transfer_result_is_None:
  "transfer ext self demo test_scene = Inr v \<Longrightarrow> v = None"
  by (auto simp: transfer_def bind_r_def split: sum.splits)

lemma test_aug_traj_events:
  assumes "transfer_body ext self demo test_scene = Inr t"
  shows "\<exists>dof_inds.
           test_aug_traj t =
             create_from_full_traj ext (robot (sim self)) (cur_traj (final_state t), dof_inds)
               (lr2open_finger_traj (demo_aug_traj_rs (env_of t)))
               (lr2close_finger_traj (demo_aug_traj_rs (env_of t)))"
proof -
  obtain i rs arm where
    e: "transfer_request ext self i rs arm = Inr (env_of t)" and
    r: "test_aug_traj t =
          create_from_full_traj ext (robot (sim self))
            (cur_traj (final_state t),
             dof_inds_from_name ext (robot (sim self)) (manip_name arm))
            (lr2open_finger_traj rs) (lr2close_finger_traj rs)"
    using transfer_body_Inr[OF assms] by blast
  show ?thesis
    using r transfer_request_Inr(3)[OF e] by auto
qed


section \<open>The decomposed transferer: only the right gripper enters the dual coupling\<close>







end
